theory Spec2Isabelle
  imports Complex_Main "HOL-Library.Word"
begin

unbundle bit_operations_syntax

section \<open>Data model\<close>

text \<open>
  The target is an ESP32: \<open>uint8_t\<close> is an 8-bit word, \<open>unsigned long\<close> (the type of
  \<open>millis()\<close> and of every timestamp field) a 32-bit word whose subtraction wraps.
  \<open>int8_t\<close> is an 8-bit word read through \<open>sint\<close>. A pointer is \<open>None\<close> when it is
  \<open>nullptr\<close> and \<open>Some h\<close> for the object with handle \<open>h\<close>. The \<open>float\<close>
  field \<open>voltage\<close> is kept as the exact quotient the decoder computes; its rounding to
  single precision is not modelled.
\<close>

type_synonym byte = "8 word"
type_synonym millis_t = "32 word"
type_synonym block = "byte list"
type_synonym handle = nat

datatype DeviceState =
    STATE_DISCONNECTED
  | STATE_SCANNING
  | STATE_CONNECTING
  | STATE_HANDSHAKE
  | STATE_MONITORING
  | STATE_COOLDOWN

datatype BatteryType =
    LEAD_ACID
  | AGM
  | OTHER_INTELLIGENT
  | OTHER_MANUAL
  | LITHIUM
  | LITHIUM_INTELLIGENT
  | LITHIUM_MANUAL

text \<open>The enumerators' values (\<open>enum BatteryType : uint8_t\<close> in types.h).\<close>

fun type_code :: "BatteryType \<Rightarrow> byte" where
  "type_code LEAD_ACID = 0x01"
| "type_code AGM = 0x02"
| "type_code OTHER_INTELLIGENT = 0x03"
| "type_code OTHER_MANUAL = 0x04"
| "type_code LITHIUM = 0x05"
| "type_code LITHIUM_INTELLIGENT = 0x06"
| "type_code LITHIUM_MANUAL = 0x07"

record DeviceConfig =
  serial :: string
  name :: string
  mqttName :: string
  type :: BatteryType
  enabled :: bool
  key :: block

text \<open>
  A \<open>NimBLEClient\<close> object, as far as the program looks at it: whether the link is up
  (\<open>isConnected()\<close>).
\<close>

record NimBLEClient =
  isConnected :: bool

record BatteryMonitor =
  configIndex :: byte
  config :: DeviceConfig
  pClient :: "NimBLEClient option"
  pWriteChar :: "handle option"
  pNotifyChar :: "handle option"
  state :: DeviceState
  connectRetries :: byte
  lastRetryTime :: millis_t
  lastNotificationTime :: millis_t
  stateEnterTime :: millis_t
  deviceAddress :: string
  voltage :: real
  soc :: byte
  temperature :: byte
  status :: byte
  rapidVoltageRise :: "16 word"
  rapidVoltageDrop :: "16 word"
  lastUpdateTime :: millis_t

text \<open>
  The calls the program makes on the BLE stack that have an effect there, in the order
  they are issued.
\<close>

datatype ble_op =
    ScanStop
  | ScanStart
  | CreateClient
  | Connect string
  | Disconnect
  | DeleteClient
  | Subscribe handle
  | WriteValue handle block

text \<open>
  The globals of main.cpp: the monitor table, the number of monitors in use, the
  program's own \<open>scanningActive\<close> flag, what \<open>pBLEScan->isScanning()\<close> answers, and
  the log of BLE calls.
\<close>

record globals =
  monitors :: "BatteryMonitor list"
  activeMonitorCount :: nat
  scanningActive :: bool
  isScanning :: bool
  ble_log :: "ble_op list"

text \<open>
  The tunables of config.h, which is not part of the sources: they are parameters of
  the model.
\<close>

record tunables =
  MAX_CONNECT_RETRIES :: int
  RETRY_COOLDOWN_MS :: millis_t
  NOTIFICATION_TIMEOUT_MS :: millis_t
  AES_KEY :: block

section \<open>Cipher\<close>

text \<open>
  The block cipher itself is the mbedtls library's: a block encryption \<open>E\<close> and a block
  decryption \<open>D\<close>, each taking the key and one 16-byte block, are parameters.
  \<open>mbedtls_aes_crypt_cbc\<close> on a single block of 16 bytes XORs the plaintext with the
  IV before encrypting, and XORs the decrypted block with the IV after decrypting.
\<close>

type_synonym block_cipher = "block \<Rightarrow> block \<Rightarrow> block"

definition AES_IV :: block where
  "AES_IV = [0x00, 0x00, 0x00, 0x00, 0x00, 0x00, 0x00, 0x00,
             0x00, 0x00, 0x00, 0x00, 0x00, 0x00, 0x00, 0x00]"

definition xor_block :: "block \<Rightarrow> block \<Rightarrow> block" where
  "xor_block a b = map2 (XOR) a b"

definition crypt_cbc_encrypt :: "block_cipher \<Rightarrow> block \<Rightarrow> block \<Rightarrow> block \<Rightarrow> block" where
  "crypt_cbc_encrypt E k iv input = E k (xor_block input iv)"

definition crypt_cbc_decrypt :: "block_cipher \<Rightarrow> block \<Rightarrow> block \<Rightarrow> block \<Rightarrow> block" where
  "crypt_cbc_decrypt D k iv input = xor_block (D k input) iv"

definition aes_encrypt :: "block_cipher \<Rightarrow> tunables \<Rightarrow> block \<Rightarrow> block" where
  "aes_encrypt E T input = (let iv_copy = AES_IV in crypt_cbc_encrypt E (AES_KEY T) iv_copy input)"

definition aes_decrypt :: "block_cipher \<Rightarrow> tunables \<Rightarrow> block \<Rightarrow> block" where
  "aes_decrypt D T input = (let iv_copy = AES_IV in crypt_cbc_decrypt D (AES_KEY T) iv_copy input)"

section \<open>Handshake\<close>

text \<open>The six plaintext command frames of \<open>sendHandshake\<close>.\<close>

definition commands :: "BatteryMonitor \<Rightarrow> block list" where
  "commands monitor =
    [[0xD1, 0x55, 0x01, 0x00, 0x00, 0x00, 0x00, 0x00, 0x00, 0x00, 0x00, 0x00, 0x00, 0x00, 0x00, 0x00],
     [0xD1, 0x55, 0x08, type_code (type (config monitor)), 0x00, 0x00, 0x00, 0x00, 0x00, 0x00, 0x00, 0x00, 0x00, 0x00, 0x00, 0x00],
     [0xD1, 0x55, 0x05, 0x00, 0x00, 0x00, 0x00, 0x00, 0x1E, 0x00, 0x00, 0x00, 0x00, 0x00, 0x00, 0x00],
     [0xD1, 0x55, 0x05, 0x00, 0x00, 0x00, 0x00, 0xCA, 0x94, 0x00, 0x00, 0x00, 0x00, 0x00, 0x00, 0x00],
     [0xD1, 0x55, 0x03, 0x00, 0x00, 0x00, 0x00, 0x00, 0x00, 0x00, 0x00, 0x00, 0x00, 0x00, 0x00, 0x00],
     [0xD1, 0x55, 0x07, 0x00, 0x00, 0x00, 0x00, 0x00, 0x00, 0x00, 0x00, 0x00, 0x00, 0x00, 0x00, 0x00]]"

text \<open>
  \<open>sendHandshake\<close> returns the BLE calls it issued and the monitor as it leaves it.
  \<open>nowTime\<close> is what \<open>millis()\<close> answers after the last write. The result of
  \<open>writeValue\<close> is only logged by the source, so a failed write changes nothing.
\<close>

definition sendHandshake ::
  "block_cipher \<Rightarrow> tunables \<Rightarrow> millis_t \<Rightarrow> BatteryMonitor \<Rightarrow> ble_op list \<times> BatteryMonitor" where
  "sendHandshake E T nowTime monitor =
    (case pWriteChar monitor of
       None \<Rightarrow> ([], monitor)
     | Some w \<Rightarrow>
         (map (\<lambda>i. WriteValue w (aes_encrypt E T (commands monitor ! i))) [0..<6],
          monitor\<lparr>state := STATE_MONITORING,
                  stateEnterTime := nowTime,
                  lastNotificationTime := nowTime,
                  lastUpdateTime := nowTime\<rparr>))"

section \<open>Notification decoder\<close>

text \<open>
  \<open>pData\<close> is the notification's bytes, its length the \<open>length\<close> argument of the
  callback. \<open>t1\<close> and \<open>t2\<close> are what the two calls of \<open>millis()\<close> answer. The search
  loop takes the first monitor in use whose \<open>pNotifyChar\<close> is the notifying
  characteristic.
\<close>

definition parse_data :: "millis_t \<Rightarrow> millis_t \<Rightarrow> block \<Rightarrow> BatteryMonitor \<Rightarrow> BatteryMonitor" where
  "parse_data t1 t2 decrypted monitor =
    monitor\<lparr>temperature :=
               (if decrypted ! 3 = 1 then word_of_int (- sint (decrypted ! 4))
                else decrypted ! 4),
            status := decrypted ! 5,
            soc := decrypted ! 6,
            voltage := real_of_int (push_bit 8 (uint (decrypted ! 7)) OR uint (decrypted ! 8)) / 100,
            rapidVoltageRise := word_of_int (push_bit 8 (uint (decrypted ! 9)) OR uint (decrypted ! 10)),
            rapidVoltageDrop := word_of_int (push_bit 8 (uint (decrypted ! 11)) OR uint (decrypted ! 12)),
            lastUpdateTime := t1,
            lastNotificationTime := t2\<rparr>"

definition notifyCallback ::
  "block_cipher \<Rightarrow> tunables \<Rightarrow> millis_t \<Rightarrow> millis_t \<Rightarrow> handle option \<Rightarrow> block \<Rightarrow> globals \<Rightarrow> globals" where
  "notifyCallback D T t1 t2 pChar pData g =
    (case find (\<lambda>i. pNotifyChar (monitors g ! i) = pChar) [0..<activeMonitorCount g] of
       None \<Rightarrow> g
     | Some i \<Rightarrow>
         if length pData \<noteq> 16 then g
         else
           let decrypted = aes_decrypt D T pData in
           if decrypted ! 0 \<noteq> 0xD1 \<or> decrypted ! 1 \<noteq> 0x55 then g
           else g\<lparr>monitors := (monitors g)[i := parse_data t1 t2 decrypted (monitors g ! i)]\<rparr>)"

section \<open>Monitor methods and the disconnect callback\<close>

definition cleanup :: "BatteryMonitor \<Rightarrow> ble_op list \<times> BatteryMonitor" where
  "cleanup monitor =
    ((case pClient monitor of
        None \<Rightarrow> []
      | Some c \<Rightarrow> (if isConnected c then [Disconnect] else []) @ [DeleteClient]),
     monitor\<lparr>pClient := None, pWriteChar := None, pNotifyChar := None,
             state := STATE_DISCONNECTED\<rparr>)"

definition isInCooldown :: "tunables \<Rightarrow> millis_t \<Rightarrow> BatteryMonitor \<Rightarrow> bool \<times> BatteryMonitor" where
  "isInCooldown T millis monitor =
    (if state monitor = STATE_COOLDOWN then
       if millis - lastRetryTime monitor \<ge> RETRY_COOLDOWN_MS T then
         (False, monitor\<lparr>connectRetries := 0, state := STATE_DISCONNECTED\<rparr>)
       else (True, monitor)
     else (False, monitor))"

text \<open>
  Link loss: the stack marks the client disconnected and runs \<open>onDisconnect\<close>.
\<close>

definition onDisconnect :: "BatteryMonitor \<Rightarrow> BatteryMonitor" where
  "onDisconnect monitor =
    monitor\<lparr>pClient := map_option (\<lambda>c. c\<lparr>isConnected := False\<rparr>) (pClient monitor),
            state := STATE_DISCONNECTED, pWriteChar := None, pNotifyChar := None\<rparr>"

section \<open>Control loop\<close>

text \<open>
  What the BLE stack and the clock answer while the loop serves one monitor:
  the result of \<open>connect\<close>, whether \<open>getService\<close> finds the service, the two
  characteristics \<open>getCharacteristic\<close> returns, \<open>canNotify()\<close>, the result of
  \<open>subscribe\<close>, \<open>millis()\<close> in \<open>sendHandshake\<close> and \<open>millis()\<close> in the
  notification-timeout check.
\<close>

record ble_answers =
  connect_ok :: bool
  service_found :: bool
  write_char :: "handle option"
  notify_char :: "handle option"
  can_notify :: bool
  subscribe_ok :: bool
  handshake_millis :: millis_t
  check_millis :: millis_t

text \<open>
  The connection attempt of \<open>loop\<close> (the body of the \<open>STATE_SCANNING\<close> branch after
  the scan is stopped). The first component says whether the branch left the
  iteration with \<open>continue\<close>. \<open>disconnect()\<close> only asks the stack to end the link:
  \<open>isConnected\<close> changes when the stack reports the link loss (\<open>onDisconnect\<close>).
\<close>

definition connect_attempt ::
  "block_cipher \<Rightarrow> tunables \<Rightarrow> millis_t \<Rightarrow> ble_answers \<Rightarrow> BatteryMonitor
     \<Rightarrow> bool \<times> ble_op list \<times> BatteryMonitor" where
  "connect_attempt E T now a monitor0 =
    (let monitor = monitor0\<lparr>state := STATE_CONNECTING\<rparr>;
         monitor = monitor\<lparr>pClient := Some \<lparr>isConnected = False\<rparr>\<rparr>;
         ops = [CreateClient, Connect (deviceAddress monitor)];
         connected = connect_ok a;
         monitor = monitor\<lparr>pClient := Some \<lparr>isConnected = connected\<rparr>\<rparr>
     in
       if \<not> connected then
         let monitor = monitor\<lparr>pClient := None\<rparr>;
             monitor = monitor\<lparr>connectRetries := connectRetries monitor + 1\<rparr>
         in
           if uint (connectRetries monitor) \<ge> MAX_CONNECT_RETRIES T then
             (False, ops @ [DeleteClient],
              monitor\<lparr>state := STATE_COOLDOWN, lastRetryTime := now\<rparr>)
           else
             (False, ops @ [DeleteClient], monitor\<lparr>state := STATE_DISCONNECTED\<rparr>)
       else if \<not> service_found a then
         (True, ops @ [Disconnect], monitor\<lparr>state := STATE_DISCONNECTED\<rparr>)
       else
         let monitor = monitor\<lparr>pWriteChar := write_char a, pNotifyChar := notify_char a\<rparr>
         in
           if pWriteChar monitor = None \<or> pNotifyChar monitor = None then
             (True, ops @ [Disconnect], monitor\<lparr>state := STATE_DISCONNECTED\<rparr>)
           else if can_notify a \<and> \<not> subscribe_ok a then
             (True, ops @ [Subscribe (the (pNotifyChar monitor)), Disconnect],
              monitor\<lparr>state := STATE_DISCONNECTED\<rparr>)
           else
             let ops = ops @ (if can_notify a then [Subscribe (the (pNotifyChar monitor))] else []);
                 monitor = monitor\<lparr>connectRetries := 0, state := STATE_HANDSHAKE\<rparr>;
                 (writes, monitor) = sendHandshake E T (handshake_millis a) monitor
             in (False, ops @ writes, monitor))"

definition check_cooldown :: "tunables \<Rightarrow> millis_t \<Rightarrow> BatteryMonitor \<Rightarrow> BatteryMonitor" where
  "check_cooldown T now monitor =
    (if state monitor = STATE_COOLDOWN then
       if now - lastRetryTime monitor \<ge> RETRY_COOLDOWN_MS T then
         monitor\<lparr>state := STATE_DISCONNECTED, connectRetries := 0\<rparr>
       else monitor
     else monitor)"

definition check_notification_timeout ::
  "tunables \<Rightarrow> millis_t \<Rightarrow> BatteryMonitor \<Rightarrow> ble_op list \<times> BatteryMonitor" where
  "check_notification_timeout T currentTime monitor =
    (if state monitor = STATE_MONITORING then
       let timeInState = currentTime - stateEnterTime monitor in
       if timeInState > 2000 then
         let timeSinceNotif = currentTime - lastNotificationTime monitor in
         if timeSinceNotif > NOTIFICATION_TIMEOUT_MS T then cleanup monitor
         else ([], monitor)
       else ([], monitor)
     else ([], monitor))"

text \<open>
  One iteration of the \<open>for\<close> loop of \<open>loop\<close>, on monitor \<open>i\<close>. The state threaded
  through the iterations is the local \<open>needToConnect\<close> and the globals.
\<close>

definition loop_body ::
  "block_cipher \<Rightarrow> tunables \<Rightarrow> millis_t \<Rightarrow> (nat \<Rightarrow> ble_answers) \<Rightarrow> nat
     \<Rightarrow> bool \<times> globals \<Rightarrow> bool \<times> globals" where
  "loop_body E T now answers i s =
    (let (needToConnect, g) = s;
         monitor = monitors g ! i;
         a = answers i;
         (continued, needToConnect, g, monitor) =
           (if state monitor = STATE_SCANNING \<and> \<not> needToConnect then
              let g = (if isScanning g
                       then g\<lparr>scanningActive := False, isScanning := False,
                              ble_log := ble_log g @ [ScanStop]\<rparr>
                       else g);
                  (continued, ops, monitor) = connect_attempt E T now a monitor
              in (continued, \<not> continued, g\<lparr>ble_log := ble_log g @ ops\<rparr>, monitor)
            else (False, needToConnect, g, monitor))
     in
       if continued then (needToConnect, g\<lparr>monitors := (monitors g)[i := monitor]\<rparr>)
       else
         let monitor = check_cooldown T now monitor;
             (ops, monitor) = check_notification_timeout T (check_millis a) monitor
         in (needToConnect,
             g\<lparr>monitors := (monitors g)[i := monitor], ble_log := ble_log g @ ops\<rparr>))"

text \<open>
  One pass of \<open>loop\<close>: \<open>now\<close> is \<open>millis()\<close> at its start. The scan runs until the
  program stops it, so \<open>isScanning\<close> changes only with the program's own
  \<open>stop\<close> and \<open>start\<close>. The periodic debug print and its static timestamp are left out.
\<close>

definition loop ::
  "block_cipher \<Rightarrow> tunables \<Rightarrow> millis_t \<Rightarrow> (nat \<Rightarrow> ble_answers) \<Rightarrow> globals \<Rightarrow> globals" where
  "loop E T now answers g0 =
    (let (needToConnect, g) =
           fold (loop_body E T now answers) [0..<activeMonitorCount g0] (False, g0);
         g = (if isScanning g \<and> \<not> scanningActive g then g\<lparr>scanningActive := True\<rparr>
              else if \<not> isScanning g \<and> scanningActive g then g\<lparr>scanningActive := False\<rparr>
              else g)
     in
       if \<not> needToConnect \<and> \<not> scanningActive g then
         g\<lparr>scanningActive := True, isScanning := True, ble_log := ble_log g @ [ScanStart]\<rparr>
       else g)"

text \<open>
  Successive passes of \<open>loop\<close>, each with its own clock reading and BLE answers.
\<close>

definition run_loop ::
  "block_cipher \<Rightarrow> tunables \<Rightarrow> (millis_t \<times> (nat \<Rightarrow> ble_answers)) list \<Rightarrow> globals \<Rightarrow> globals" where
  "run_loop E T ticks g = fold (\<lambda>(now, answers). loop E T now answers) ticks g"

text \<open>The payloads of the \<open>writeValue\<close> calls in a sequence of BLE calls, in order.\<close>

fun written :: "ble_op list \<Rightarrow> block list" where
  "written [] = []"
| "written (WriteValue h b # ops) = b # written ops"
| "written (_ # ops) = written ops"

section \<open>Discovery matcher\<close>

text \<open>
  An advertisement: whether it carries a name, the name, and the address as
  \<open>getAddress().toString()\<close> prints it.
\<close>

record NimBLEAdvertisedDevice =
  haveName :: bool
  getName :: string
  getAddress :: string

definition toupper :: "char \<Rightarrow> char" where
  "toupper c =
    (let n = (of_char c :: nat) in if 97 \<le> n \<and> n \<le> 122 then char_of (n - 32) else c)"

definition toUpperCase :: "string \<Rightarrow> string" where
  "toUpperCase s = map toupper s"

definition remove_colons :: "string \<Rightarrow> string" where
  "remove_colons s = filter (\<lambda>c. c \<noteq> CHR '':'') s"

text \<open>
  The \<open>for\<close> loop of \<open>onResult\<close> over the remaining indices. The result names the
  monitor whose claim branch ran (the branch that stops the scan and returns), or
  \<open>None\<close> when the loop runs to its end.
\<close>

primrec onResult_loop ::
  "string \<Rightarrow> NimBLEAdvertisedDevice \<Rightarrow> nat list \<Rightarrow> globals \<Rightarrow> nat option \<times> globals" where
  "onResult_loop mac device [] g = (None, g)"
| "onResult_loop mac device (i # rest) g =
    (let monitor = monitors g ! i;
         configSerial = toUpperCase (serial (config monitor))
     in
       if mac \<noteq> configSerial then onResult_loop mac device rest g
       else if \<not> enabled (config monitor) then onResult_loop mac device rest g
       else if state monitor = STATE_COOLDOWN then onResult_loop mac device rest g
       else if state monitor = STATE_CONNECTING \<or> state monitor = STATE_MONITORING
               \<or> state monitor = STATE_HANDSHAKE then onResult_loop mac device rest g
       else if (case pClient monitor of None \<Rightarrow> False | Some c \<Rightarrow> isConnected c)
         then onResult_loop mac device rest g
       else if mac = configSerial then
         (Some i,
          g\<lparr>isScanning := False, ble_log := ble_log g @ [ScanStop],
            monitors := (monitors g)[i := monitor\<lparr>state := STATE_SCANNING,
                                                  deviceAddress := getAddress device\<rparr>]\<rparr>)
       else onResult_loop mac device rest g)"

definition onResult :: "NimBLEAdvertisedDevice \<Rightarrow> globals \<Rightarrow> nat option \<times> globals" where
  "onResult device g =
    (if \<not> haveName device \<or> getName device \<noteq> ''Battery Guard'' then (None, g)
     else
       let mac = toUpperCase (remove_colons (getAddress device))
       in onResult_loop mac device [0..<activeMonitorCount g] g)"

section \<open>Construction and concrete instances\<close>

text \<open>The constructor of \<open>BatteryMonitor\<close> followed by \<open>init\<close>.\<close>

definition init :: "byte \<Rightarrow> DeviceConfig \<Rightarrow> BatteryMonitor" where
  "init index cfg =
    \<lparr>configIndex = index, config = cfg, pClient = None, pWriteChar = None,
     pNotifyChar = None, state = STATE_DISCONNECTED, connectRetries = 0,
     lastRetryTime = 0, lastNotificationTime = 0, stateEnterTime = 0,
     deviceAddress = '''', voltage = 0, soc = 0, temperature = 0, status = 0,
     rapidVoltageRise = 0, rapidVoltageDrop = 0, lastUpdateTime = 0\<rparr>"

text \<open>
  A stand-in block cipher for running the model on concrete inputs: XOR with the key.
  Decrypting with it undoes encrypting, which is all the program relies on.
\<close>

definition xor_cipher :: block_cipher where
  "xor_cipher k b = xor_block b k"

definition demo_key :: block where
  "demo_key = [0x10, 0x21, 0x32, 0x43, 0x54, 0x65, 0x76, 0x87,
               0x98, 0xA9, 0xBA, 0xCB, 0xDC, 0xED, 0xFE, 0x0F]"

definition other_key :: block where
  "other_key = [0xFF, 0xEE, 0xDD, 0xCC, 0xBB, 0xAA, 0x99, 0x88,
                0x77, 0x66, 0x55, 0x44, 0x33, 0x22, 0x11, 0x00]"

definition demo_tunables :: tunables where
  "demo_tunables =
    \<lparr>MAX_CONNECT_RETRIES = 3, RETRY_COOLDOWN_MS = 30000,
     NOTIFICATION_TIMEOUT_MS = 60000, AES_KEY = demo_key\<rparr>"

definition demo_config :: DeviceConfig where
  "demo_config =
    \<lparr>serial = ''50547B815AFB'', name = ''Main Battery'', mqttName = ''main_battery'',
     type = LEAD_ACID, enabled = True, key = demo_key\<rparr>"

definition demo_config2 :: DeviceConfig where
  "demo_config2 =
    \<lparr>serial = ''50547B815A01'', name = ''Aux Battery'', mqttName = ''aux_battery'',
     type = LEAD_ACID, enabled = True, key = other_key\<rparr>"

text \<open>A monitor that is connected and subscribed, in the given state.\<close>

definition linked_monitor :: "DeviceConfig \<Rightarrow> handle \<Rightarrow> DeviceState \<Rightarrow> BatteryMonitor" where
  "linked_monitor cfg h st =
    (init 0 cfg)\<lparr>pClient := Some \<lparr>isConnected = True\<rparr>, pWriteChar := Some h,
                  pNotifyChar := Some (Suc h), state := st\<rparr>"

definition demo_globals :: "BatteryMonitor list \<Rightarrow> globals" where
  "demo_globals ms =
    \<lparr>monitors = ms, activeMonitorCount = length ms, scanningActive = True,
     isScanning = True, ble_log = []\<rparr>"

text \<open>What the BLE stack answers in the demonstrations: everything succeeds.\<close>

definition all_ok :: ble_answers where
  "all_ok =
    \<lparr>connect_ok = True, service_found = True, write_char = Some 7, notify_char = Some 8,
     can_notify = True, subscribe_ok = True, handshake_millis = 1500, check_millis = 1600\<rparr>"

text \<open>An advertisement of the first demonstration device.\<close>

definition demo_advert :: NimBLEAdvertisedDevice where
  "demo_advert =
    \<lparr>haveName = True, getName = ''Battery Guard'', getAddress = ''50:54:7b:81:5a:fb''\<rparr>"

text \<open>Monitors of the first demonstration device in the states the loop acts on.\<close>

definition cooldown_monitor :: BatteryMonitor where
  "cooldown_monitor =
    (init 0 demo_config)\<lparr>state := STATE_COOLDOWN, connectRetries := 3, lastRetryTime := 1000\<rparr>"

definition monitoring_monitor :: BatteryMonitor where
  "monitoring_monitor =
    (linked_monitor demo_config 7 STATE_MONITORING)
      \<lparr>stateEnterTime := 1500, lastNotificationTime := 1500, lastUpdateTime := 1500\<rparr>"

definition scanning_monitor :: "byte \<Rightarrow> BatteryMonitor" where
  "scanning_monitor retries =
    (init 0 demo_config)\<lparr>state := STATE_SCANNING, connectRetries := retries,
                         deviceAddress := ''50:54:7b:81:5a:fb''\<rparr>"

text \<open>Plaintext telemetry frames: header, sign byte, magnitude, status, SOC, voltage, counters.\<close>

definition telemetry :: "byte \<Rightarrow> byte \<Rightarrow> block" where
  "telemetry sign magnitude =
    [0xD1, 0x55, 0x00, sign, magnitude, 0x02, 0x3B, 0x04, 0xB0, 0x00, 0x00, 0x00, 0x02,
     0x00, 0x00, 0x00]"


section \<open>Properties of the cipher and the notification decoder\<close>

lemma xor_replicate_zero: "length p = n \<Longrightarrow> map2 (XOR) p (replicate n (0::byte)) = p"
  by (induction p arbitrary: n) auto

lemma AES_IV_replicate: "AES_IV = replicate 16 0"
  by (simp add: AES_IV_def numeral_eq_Suc)

lemma xor_block_AES_IV: "length p = 16 \<Longrightarrow> xor_block p AES_IV = p"
  by (simp add: xor_block_def AES_IV_replicate xor_replicate_zero)

lemma xor_block_cancel: "length p \<le> length k \<Longrightarrow> xor_block (xor_block p k) k = p"
  unfolding xor_block_def
proof (induction p arbitrary: k)
  case Nil
  then show ?case by simp
next
  case (Cons a p)
  then show ?case by (cases k) (simp_all add: xor.assoc)
qed

lemma length_xor_block: "length (xor_block a b) = min (length a) (length b)"
  by (simp add: xor_block_def)

lemma xor_cipher_contract:
  "length k = 16 \<Longrightarrow> \<forall>b. length b = 16 \<longrightarrow> xor_cipher k (xor_cipher k b) = b"
  by (simp add: xor_cipher_def xor_block_cancel)

lemma aes_decrypt_encrypt:
  assumes "\<forall>b. length b = 16 \<longrightarrow> D (AES_KEY T) (E (AES_KEY T) b) = b"
    and "length p = 16"
  shows "aes_decrypt D T (aes_encrypt E T p) = p"
  using assms by (simp add: aes_decrypt_def aes_encrypt_def crypt_cbc_decrypt_def crypt_cbc_encrypt_def xor_block_AES_IV)

text \<open>
  C8: for every 16-byte plaintext block \<open>p\<close> and every key, when the block decryption
  undoes the block encryption under that key (the contract of the cipher), decrypting
  the encryption of \<open>p\<close> under the zero IV gives \<open>p\<close> back.
\<close>

theorem aes_roundtrip:
  assumes "\<forall>b. length b = 16 \<longrightarrow> D (AES_KEY T) (E (AES_KEY T) b) = b"
    and "length p = 16"
  shows "aes_decrypt D T (aes_encrypt E T p) = p"
  using assms by (rule aes_decrypt_encrypt)

theorem aes_roundtrip_witness:
  "aes_decrypt xor_cipher demo_tunables (aes_encrypt xor_cipher demo_tunables (telemetry 0 23))
     = telemetry 0 23"
proof -
  have k: "length (AES_KEY demo_tunables) = 16"
    by (simp add: demo_tunables_def demo_key_def)
  have p: "length (telemetry 0 23) = 16"
    by (simp add: telemetry_def)
  show ?thesis
    using aes_roundtrip [of xor_cipher demo_tunables xor_cipher "telemetry 0 23"]
      xor_cipher_contract [OF k] p by simp
qed


text \<open>
  C7: a notification whose length is not 16, or whose first two decrypted bytes are
  not \<open>0xD1 0x55\<close>, leaves everything unchanged: the monitor's reading, its
  \<open>lastNotificationTime\<close>, its state and its \<open>connectRetries\<close> (and every other
  global).
\<close>

theorem notify_rejected:
  "length pData \<noteq> 16 \<or> aes_decrypt D T pData ! 0 \<noteq> 0xD1 \<or> aes_decrypt D T pData ! 1 \<noteq> 0x55
   \<Longrightarrow> notifyCallback D T t1 t2 pChar pData g = g"
  by (auto simp: notifyCallback_def Let_def split: option.splits)


lemmas demo_defs =
  demo_globals_def linked_monitor_def init_def demo_config_def demo_config2_def
  demo_tunables_def demo_key_def other_key_def telemetry_def

lemmas cipher_defs =
  aes_encrypt_def aes_decrypt_def crypt_cbc_encrypt_def crypt_cbc_decrypt_def
  xor_cipher_def xor_block_def AES_IV_def

theorem notify_rejected_witness:
  "notifyCallback xor_cipher demo_tunables 5 6 (Some 8) [1, 2, 3]
     (demo_globals [linked_monitor demo_config 7 STATE_MONITORING])
     = demo_globals [linked_monitor demo_config 7 STATE_MONITORING]
   \<and> notifyCallback xor_cipher demo_tunables 5 6 (Some 8)
     ((aes_encrypt xor_cipher demo_tunables (commands (init 0 demo_config) ! 0))[0 := 0xD0])
     (demo_globals [linked_monitor demo_config 7 STATE_MONITORING])
     = demo_globals [linked_monitor demo_config 7 STATE_MONITORING]"
  using notify_rejected [of "[1, 2, 3]" xor_cipher demo_tunables 5 6 "Some 8"
      "demo_globals [linked_monitor demo_config 7 STATE_MONITORING]"]
    notify_rejected [of "(aes_encrypt xor_cipher demo_tunables (commands (init 0 demo_config) ! 0))[0 := 0xD0]"
      xor_cipher demo_tunables 5 6 "Some 8"
      "demo_globals [linked_monitor demo_config 7 STATE_MONITORING]"]
  by (simp add: cipher_defs demo_defs commands_def)

lemma sint_byte_of_int: "sint (word_of_int x :: byte) = (x + 128) mod 256 - 128"
  by (simp add: int_word_sint)

lemma uint_byte_bounds: "0 \<le> uint (b::byte) \<and> uint b < 256"
  using uint_bounded [of b] by simp

lemma mod_shift_low: "- 128 \<le> (u::int) \<Longrightarrow> u < 128 \<Longrightarrow> (u + 128) mod 256 - 128 = u"
  by simp

lemma mod_shift_high: "128 \<le> (u::int) \<Longrightarrow> u < 384 \<Longrightarrow> (u + 128) mod 256 - 128 = u - 256"
proof -
  assume a: "128 \<le> u" "u < 384"
  have "u + 128 = (u - 128) + 256" by arith
  then have "(u + 128) mod 256 = ((u - 128) + 256) mod 256" by (simp only:)
  also have "\<dots> = (u - 128) mod 256" by (rule mod_add_self2)
  also have "\<dots> = u - 128" using a by simp
  finally show ?thesis by simp
qed

lemma sint_byte: "sint (b::byte) = (if uint b < 128 then uint b else uint b - 256)"
proof -
  have "sint (word_of_int (uint b) :: byte) = (uint b + 128) mod 256 - 128"
    by (rule sint_byte_of_int)
  then have s: "sint b = (uint b + 128) mod 256 - 128" 
    by (simp only: word_of_int_uint)
  show ?thesis
    using uint_byte_bounds [of b] mod_shift_low [of "uint b"] mod_shift_high [of "uint b"]
    unfolding s by (cases "uint b < 128") auto
qed

lemma decode_negative:
  "sint (word_of_int (- sint b) :: byte) =
     (if uint b \<le> 128 then - uint b else 256 - uint b)" for b :: byte
proof -
  define u where "u = uint b"
  have bounds: "0 \<le> u" "u < 256"
    using uint_byte_bounds [of b] by (simp_all add: u_def)
  have s: "sint b = (if u < 128 then u else u - 256)"
    unfolding u_def by (rule sint_byte)
  have r: "sint (word_of_int (- sint b) :: byte) = (- sint b + 128) mod 256 - 128"
    by (rule sint_byte_of_int)
  consider "u < 128" | "u = 128" | "128 < u" by arith
  then have "(- sint b + 128) mod 256 - 128 = (if u \<le> 128 then - u else 256 - u)"
  proof cases
    case 1
    then show ?thesis using bounds s mod_shift_low [of "- u"] by simp
  next
    case 2
    then show ?thesis using s by simp
  next
    case 3
    then show ?thesis using bounds s mod_shift_low [of "256 - u"] by simp
  qed
  then show ?thesis unfolding r u_def .
qed

lemma sint_neg_byte:
  "sint (- b) = (if uint b \<le> 128 then - uint b else 256 - uint b)" for b :: byte
  using decode_negative [of b] by simp

lemma find_upt_Some: "find P [0..<n] = Some i \<Longrightarrow> i < n \<and> P i"
  by (auto simp: find_Some_iff)

lemma notifyCallback_accepted:
  assumes "find (\<lambda>i. pNotifyChar (monitors g ! i) = pChar) [0..<activeMonitorCount g] = Some i"
    and "length pData = 16"
    and "aes_decrypt D T pData ! 0 = 0xD1"
    and "aes_decrypt D T pData ! 1 = 0x55"
  shows "notifyCallback D T t1 t2 pChar pData g =
    g\<lparr>monitors := (monitors g)[i := parse_data t1 t2 (aes_decrypt D T pData) (monitors g ! i)]\<rparr>"
  using assms by (simp add: notifyCallback_def Let_def)

lemma notifyCallback_monitor:
  assumes "find (\<lambda>i. pNotifyChar (monitors g ! i) = pChar) [0..<activeMonitorCount g] = Some i"
    and "activeMonitorCount g \<le> length (monitors g)"
    and "length pData = 16"
    and "aes_decrypt D T pData ! 0 = 0xD1"
    and "aes_decrypt D T pData ! 1 = 0x55"
  shows "monitors (notifyCallback D T t1 t2 pChar pData g) ! i =
    parse_data t1 t2 (aes_decrypt D T pData) (monitors g ! i)"
proof -
  have "i < length (monitors g)"
    using find_upt_Some [OF assms(1)] assms(2) by simp
  then show ?thesis
    by (simp add: notifyCallback_accepted [OF assms(1,3,4,5)])
qed

text \<open>
  C9, as the code has it: for an accepted frame with magnitude byte \<open>m\<close> (byte 4), the
  decoded temperature is \<open>m\<close>, negated when the sign byte (byte 3) equals 1, for
  \<open>m\<close> in 0..127. The field is an \<open>int8_t\<close>: for \<open>m\<close> in 128..255 the byte is read
  as \<open>m - 256\<close> before the sign is applied, and the negation wraps in 8 bits
  (\<open>m = 128\<close> with sign 1 gives \<open>-128\<close>).
\<close>

theorem temperature_decode:
  assumes "find (\<lambda>i. pNotifyChar (monitors g ! i) = pChar) [0..<activeMonitorCount g] = Some i"
    and "activeMonitorCount g \<le> length (monitors g)"
    and "length pData = 16"
    and "d = aes_decrypt D T pData"
    and "d ! 0 = 0xD1"
    and "d ! 1 = 0x55"
  shows "sint (temperature (monitors (notifyCallback D T t1 t2 pChar pData g) ! i)) =
    (if uint (d ! 4) \<le> 127 then (if d ! 3 = 1 then - uint (d ! 4) else uint (d ! 4))
     else if d ! 3 \<noteq> 1 then uint (d ! 4) - 256
     else if uint (d ! 4) = 128 then - 128
     else 256 - uint (d ! 4))"
proof -
  have m: "monitors (notifyCallback D T t1 t2 pChar pData g) ! i =
      parse_data t1 t2 d (monitors g ! i)"
    using notifyCallback_monitor [OF assms(1,2,3), of D T t1 t2] assms(4,5,6) by simp
  have t: "temperature (parse_data t1 t2 d (monitors g ! i)) =
      (if d ! 3 = 1 then - (d ! 4) else d ! 4)"
    by (simp add: parse_data_def)
  show ?thesis
    unfolding m t using sint_neg_byte [of "d ! 4"] sint_byte [of "d ! 4"]
    by (cases "d ! 3 = 1") (simp_all split: if_splits)
qed


lemma demo_key_length: "length (AES_KEY demo_tunables) = 16"
  by (simp add: demo_tunables_def demo_key_def)

lemma demo_decrypt_encrypt:
  "length p = 16 \<Longrightarrow>
   aes_decrypt xor_cipher demo_tunables (aes_encrypt xor_cipher demo_tunables p) = p"
  using aes_decrypt_encrypt [of xor_cipher demo_tunables xor_cipher p]
    xor_cipher_contract [OF demo_key_length] by simp

lemma length_aes_encrypt_xor:
  "length p = 16 \<Longrightarrow> length (aes_encrypt xor_cipher demo_tunables p) = 16"
  by (simp add: cipher_defs demo_tunables_def demo_key_def)

lemma length_telemetry: "length (telemetry s m) = 16"
  by (simp add: telemetry_def)

lemma find_demo:
  "find (\<lambda>i. pNotifyChar (monitors (demo_globals [linked_monitor cfg 7 st]) ! i) = Some 8)
     [0..<activeMonitorCount (demo_globals [linked_monitor cfg 7 st])] = Some 0"
  by (simp add: demo_globals_def linked_monitor_def)

theorem temperature_decode_witness:
  "sint (temperature (monitors (notifyCallback xor_cipher demo_tunables 5 6 (Some 8)
      (aes_encrypt xor_cipher demo_tunables (telemetry 1 23))
      (demo_globals [linked_monitor demo_config 7 STATE_MONITORING])) ! 0)) = - 23
   \<and> sint (temperature (monitors (notifyCallback xor_cipher demo_tunables 5 6 (Some 8)
      (aes_encrypt xor_cipher demo_tunables (telemetry 0 23))
      (demo_globals [linked_monitor demo_config 7 STATE_MONITORING])) ! 0)) = 23
   \<and> sint (temperature (monitors (notifyCallback xor_cipher demo_tunables 5 6 (Some 8)
      (aes_encrypt xor_cipher demo_tunables (telemetry 1 200))
      (demo_globals [linked_monitor demo_config 7 STATE_MONITORING])) ! 0)) = 56
   \<and> sint (temperature (monitors (notifyCallback xor_cipher demo_tunables 5 6 (Some 8)
      (aes_encrypt xor_cipher demo_tunables (telemetry 1 128))
      (demo_globals [linked_monitor demo_config 7 STATE_MONITORING])) ! 0)) = - 128"
  using
    temperature_decode [OF find_demo, of demo_config STATE_MONITORING
      "aes_encrypt xor_cipher demo_tunables (telemetry 1 23)" "telemetry 1 23"
      xor_cipher demo_tunables 5 6]
    temperature_decode [OF find_demo, of demo_config STATE_MONITORING
      "aes_encrypt xor_cipher demo_tunables (telemetry 0 23)" "telemetry 0 23"
      xor_cipher demo_tunables 5 6]
    temperature_decode [OF find_demo, of demo_config STATE_MONITORING
      "aes_encrypt xor_cipher demo_tunables (telemetry 1 200)" "telemetry 1 200"
      xor_cipher demo_tunables 5 6]
    temperature_decode [OF find_demo, of demo_config STATE_MONITORING
      "aes_encrypt xor_cipher demo_tunables (telemetry 1 128)" "telemetry 1 128"
      xor_cipher demo_tunables 5 6]
  by (simp add: demo_decrypt_encrypt length_telemetry length_aes_encrypt_xor)
     (simp add: demo_globals_def telemetry_def)

text \<open>
  C9 as stated fails for a magnitude above 127: sign 0 and magnitude 200 decode to
  \<open>-56\<close>, not to 200.
\<close>

theorem temperature_unsigned_counterexample:
  "telemetry 0 200 ! 3 = 0 \<and> telemetry 0 200 ! 4 = 200
   \<and> sint (temperature (monitors (notifyCallback xor_cipher demo_tunables 5 6 (Some 8)
      (aes_encrypt xor_cipher demo_tunables (telemetry 0 200))
      (demo_globals [linked_monitor demo_config 7 STATE_MONITORING])) ! 0)) = - 56"
proof -
  have "monitors (notifyCallback xor_cipher demo_tunables 5 6 (Some 8)
      (aes_encrypt xor_cipher demo_tunables (telemetry 0 200))
      (demo_globals [linked_monitor demo_config 7 STATE_MONITORING])) ! 0
    = parse_data 5 6 (telemetry 0 200) (linked_monitor demo_config 7 STATE_MONITORING)"
    using notifyCallback_monitor [OF find_demo, of demo_config STATE_MONITORING
      "aes_encrypt xor_cipher demo_tunables (telemetry 0 200)" xor_cipher demo_tunables 5 6]
    by (simp add: demo_decrypt_encrypt length_telemetry length_aes_encrypt_xor)
       (simp add: demo_globals_def telemetry_def)
  then show ?thesis
    by (simp add: parse_data_def telemetry_def)
qed

text \<open>
  C10: a notification that passes the length and header checks replaces, in the monitor
  it belongs to, the six reading fields and the timestamps \<open>lastUpdateTime\<close> and
  \<open>lastNotificationTime\<close>, and nothing else: state, \<open>connectRetries\<close> and the
  transport handles are as before, every other monitor and global is untouched, and
  nothing is asked of the monitor's state.
\<close>

theorem notify_writes_reading_only:
  assumes "find (\<lambda>i. pNotifyChar (monitors g ! i) = pChar) [0..<activeMonitorCount g] = Some i"
    and "activeMonitorCount g \<le> length (monitors g)"
    and "length pData = 16"
    and "aes_decrypt D T pData ! 0 = 0xD1"
    and "aes_decrypt D T pData ! 1 = 0x55"
    and "m = monitors g ! i"
    and "m' = monitors (notifyCallback D T t1 t2 pChar pData g) ! i"
  shows "notifyCallback D T t1 t2 pChar pData g = g\<lparr>monitors := (monitors g)[i := m']\<rparr>
    \<and> m' = m\<lparr>temperature := temperature m', status := status m', soc := soc m',
                voltage := voltage m', rapidVoltageRise := rapidVoltageRise m',
                rapidVoltageDrop := rapidVoltageDrop m',
                lastUpdateTime := t1, lastNotificationTime := t2\<rparr>
    \<and> state m' = state m \<and> connectRetries m' = connectRetries m
    \<and> pClient m' = pClient m \<and> pWriteChar m' = pWriteChar m
    \<and> pNotifyChar m' = pNotifyChar m"
proof -
  have m': "m' = parse_data t1 t2 (aes_decrypt D T pData) m"
    using notifyCallback_monitor [OF assms(1-5), of t1 t2] assms(6,7) by simp
  have "notifyCallback D T t1 t2 pChar pData g = g\<lparr>monitors := (monitors g)[i := m']\<rparr>"
    unfolding m' assms(6) by (rule notifyCallback_accepted [OF assms(1,3,4,5)])
  moreover have "m' = m\<lparr>temperature := temperature m', status := status m', soc := soc m',
                voltage := voltage m', rapidVoltageRise := rapidVoltageRise m',
                rapidVoltageDrop := rapidVoltageDrop m',
                lastUpdateTime := t1, lastNotificationTime := t2\<rparr>"
    unfolding m' by (simp add: parse_data_def)
  moreover have "state m' = state m \<and> connectRetries m' = connectRetries m
         \<and> pClient m' = pClient m \<and> pWriteChar m' = pWriteChar m
         \<and> pNotifyChar m' = pNotifyChar m"
    unfolding m' by (simp add: parse_data_def)
  ultimately show ?thesis by blast
qed

theorem notify_writes_reading_only_witness:
  "notifyCallback xor_cipher demo_tunables 5 6 (Some 8)
      (aes_encrypt xor_cipher demo_tunables (telemetry 0 23))
      (demo_globals [linked_monitor demo_config 7 STATE_HANDSHAKE])
    = demo_globals [(linked_monitor demo_config 7 STATE_HANDSHAKE)
        \<lparr>temperature := 23, status := 2, soc := 59, voltage := 12, rapidVoltageRise := 0,
         rapidVoltageDrop := 2, lastUpdateTime := 5, lastNotificationTime := 6\<rparr>]"
proof -
  let ?g = "demo_globals [linked_monitor demo_config 7 STATE_HANDSHAKE]"
  let ?c = "aes_encrypt xor_cipher demo_tunables (telemetry 0 23)"
  have a: "activeMonitorCount ?g \<le> length (monitors ?g)"
    by (simp add: demo_globals_def)
  have l: "length ?c = 16"
    by (simp add: length_aes_encrypt_xor length_telemetry)
  have h0: "aes_decrypt xor_cipher demo_tunables ?c ! 0 = 0xD1"
    by (simp add: demo_decrypt_encrypt length_telemetry) (simp add: telemetry_def)
  have h1: "aes_decrypt xor_cipher demo_tunables ?c ! 1 = 0x55"
    by (simp add: demo_decrypt_encrypt length_telemetry) (simp add: telemetry_def)
  have m: "monitors (notifyCallback xor_cipher demo_tunables 5 6 (Some 8) ?c ?g) ! 0
      = parse_data 5 6 (telemetry 0 23) (linked_monitor demo_config 7 STATE_HANDSHAKE)"
    using notifyCallback_monitor [OF find_demo a l h0 h1, of 5 6]
    by (simp add: demo_decrypt_encrypt length_telemetry) (simp add: demo_globals_def)
  show ?thesis
    using notify_writes_reading_only [OF find_demo a l h0 h1 refl refl, of 5 6]
    unfolding m by (simp add: demo_globals_def parse_data_def telemetry_def)
qed

section \<open>Properties of the control loop\<close>

text \<open>
  An iteration of the loop touches only the monitor it serves, so what a pass of
  \<open>loop\<close> does to monitor \<open>i\<close> is what iteration \<open>i\<close> does to it.
\<close>

lemma loop_body_shape:
  "\<exists>m'. monitors (snd (loop_body E T now ans i s)) = (monitors (snd s))[i := m']
     \<and> activeMonitorCount (snd (loop_body E T now ans i s)) = activeMonitorCount (snd s)"
  by (cases s) (auto simp: loop_body_def Let_def split: prod.splits)

lemma loop_body_length:
  "length (monitors (snd (loop_body E T now ans i s))) = length (monitors (snd s))"
  using loop_body_shape [of E T now ans i s] by auto

lemma loop_body_count:
  "activeMonitorCount (snd (loop_body E T now ans i s)) = activeMonitorCount (snd s)"
  using loop_body_shape [of E T now ans i s] by auto

lemma loop_body_other:
  "j \<noteq> i \<Longrightarrow> monitors (snd (loop_body E T now ans i s)) ! j = monitors (snd s) ! j"
  using loop_body_shape [of E T now ans i s] by auto

lemma fold_loop_body_length:
  "length (monitors (snd (fold (loop_body E T now ans) js s))) = length (monitors (snd s))"
  by (induction js arbitrary: s) (simp_all add: loop_body_length)

lemma fold_loop_body_count:
  "activeMonitorCount (snd (fold (loop_body E T now ans) js s)) = activeMonitorCount (snd s)"
  by (induction js arbitrary: s) (simp_all add: loop_body_count)

lemma fold_loop_body_other:
  "j \<notin> set js \<Longrightarrow>
   monitors (snd (fold (loop_body E T now ans) js s)) ! j = monitors (snd s) ! j"
  by (induction js arbitrary: s) (simp_all add: loop_body_other)

lemma loop_body_not_scanning:
  assumes "state (monitors g ! i) \<noteq> STATE_SCANNING" and "i < length (monitors g)"
  shows "monitors (snd (loop_body E T now ans i (b, g))) ! i =
    snd (check_notification_timeout T (check_millis (ans i))
          (check_cooldown T now (monitors g ! i)))"
  using assms by (simp add: loop_body_def Let_def split: prod.splits)

lemma loop_monitors:
  "monitors (loop E T now ans g) =
   monitors (snd (fold (loop_body E T now ans) [0..<activeMonitorCount g] (False, g)))"
  by (simp add: loop_def Let_def split: prod.splits)

lemma loop_count: "activeMonitorCount (loop E T now ans g) = activeMonitorCount g"
proof -
  obtain b g1 where f: "fold (loop_body E T now ans) [0..<activeMonitorCount g] (False, g) = (b, g1)"
    by (cases "fold (loop_body E T now ans) [0..<activeMonitorCount g] (False, g)")
  have "activeMonitorCount g1 = activeMonitorCount g"
    using fold_loop_body_count [of E T now ans "[0..<activeMonitorCount g]" "(False, g)"] f
    by simp
  then show ?thesis
    by (simp add: loop_def f Let_def)
qed

lemma loop_length: "length (monitors (loop E T now ans g)) = length (monitors g)"
  by (simp add: loop_monitors fold_loop_body_length)

lemma loop_not_scanning:
  assumes "i < activeMonitorCount g" and "activeMonitorCount g \<le> length (monitors g)"
    and "state (monitors g ! i) \<noteq> STATE_SCANNING"
  shows "monitors (loop E T now ans g) ! i =
    snd (check_notification_timeout T (check_millis (ans i))
          (check_cooldown T now (monitors g ! i)))"
proof -
  let ?f = "loop_body E T now ans"
  let ?n = "activeMonitorCount g"
  obtain b g1 where s1: "fold ?f [0..<i] (False, g) = (b, g1)"
    by (cases "fold ?f [0..<i] (False, g)")
  have same: "monitors g1 ! i = monitors g ! i"
    using fold_loop_body_other [of i "[0..<i]" E T now ans "(False, g)"] s1 by simp
  have len: "length (monitors g1) = length (monitors g)"
    using fold_loop_body_length [of E T now ans "[0..<i]" "(False, g)"] s1 by simp
  have split: "[0..<?n] = [0..<i] @ i # [Suc i..<?n]"
    using assms(1) by (metis le_add1 less_imp_add_positive upt_add_eq_append upt_conv_Cons zero_le plus_nat.add_0)
  have "monitors (loop E T now ans g) ! i =
      monitors (snd (fold ?f [Suc i..<?n] (?f i (b, g1)))) ! i"
    by (simp add: loop_monitors split s1)
  also have "\<dots> = monitors (snd (?f i (b, g1))) ! i"
    by (rule fold_loop_body_other) simp
  also have "\<dots> = snd (check_notification_timeout T (check_millis (ans i))
          (check_cooldown T now (monitors g1 ! i)))"
    using assms len same by (intro loop_body_not_scanning) simp_all
  finally show ?thesis by (simp add: same)
qed


lemma loop_disconnected:
  assumes "i < activeMonitorCount g" and "activeMonitorCount g \<le> length (monitors g)"
    and "state (monitors g ! i) = STATE_DISCONNECTED"
  shows "monitors (loop E T now ans g) ! i = monitors g ! i"
  using loop_not_scanning [OF assms(1,2), of E T now ans] assms(3)
  by (simp add: check_cooldown_def check_notification_timeout_def)

lemma run_loop_disconnected:
  assumes "i < activeMonitorCount g" and "activeMonitorCount g \<le> length (monitors g)"
    and "state (monitors g ! i) = STATE_DISCONNECTED"
  shows "monitors (run_loop E T ticks g) ! i = monitors g ! i"
  using assms
proof (induction ticks arbitrary: g)
  case Nil
  then show ?case by (simp add: run_loop_def)
next
  case (Cons tick ticks)
  obtain now ans where tick: "tick = (now, ans)" by (cases tick)
  let ?g = "loop E T now ans g"
  have step: "monitors ?g ! i = monitors g ! i"
    using Cons.prems by (rule loop_disconnected)
  have "monitors (run_loop E T ticks ?g) ! i = monitors ?g ! i"
    using Cons.prems step by (intro Cons.IH) (simp_all add: loop_count loop_length)
  then show ?case
    by (simp add: run_loop_def tick step)
qed

lemma loop_body_disconnected:
  assumes "i < length (monitors g)" and "state (monitors g ! i) = STATE_DISCONNECTED"
  shows "loop_body E T now ans i (b, g) = (b, g)"
  using assms
  by (simp add: loop_body_def Let_def check_cooldown_def check_notification_timeout_def)

text \<open>
  C2: a pass of the control loop takes a monitor in COOLDOWN back to DISCONNECTED with
  \<open>connectRetries\<close> reset to 0 exactly when \<open>now - lastRetryTime \<ge> RETRY_COOLDOWN_MS\<close>
  (32-bit unsigned subtraction, as \<open>millis()\<close> has it); otherwise the monitor is left
  as it is, in COOLDOWN. \<open>isInCooldown\<close> decides in the same way.
\<close>

theorem cooldown_expiry:
  assumes "i < activeMonitorCount g" and "activeMonitorCount g \<le> length (monitors g)"
    and "m = monitors g ! i" and "state m = STATE_COOLDOWN"
  shows "monitors (loop E T now ans g) ! i =
      (if now - lastRetryTime m \<ge> RETRY_COOLDOWN_MS T
       then m\<lparr>state := STATE_DISCONNECTED, connectRetries := 0\<rparr> else m)
    \<and> isInCooldown T now m =
      (if now - lastRetryTime m \<ge> RETRY_COOLDOWN_MS T
       then (False, m\<lparr>connectRetries := 0, state := STATE_DISCONNECTED\<rparr>) else (True, m))"
proof -
  have "monitors (loop E T now ans g) ! i =
      snd (check_notification_timeout T (check_millis (ans i)) (check_cooldown T now m))"
    using assms by (simp add: loop_not_scanning)
  then show ?thesis
    using assms(4)
    by (simp add: check_cooldown_def check_notification_timeout_def isInCooldown_def)
qed

text \<open>
  C4: for a monitor in MONITORING, a pass of the control loop cleans it up exactly when
  more than 2000 ms have passed since \<open>stateEnterTime\<close> and more than
  \<open>NOTIFICATION_TIMEOUT_MS\<close> since \<open>lastNotificationTime\<close>; within the grace period,
  or with a recent notification, the monitor is unchanged. The cleanup disconnects a
  connected client, deletes it, clears the three handles and sets DISCONNECTED. After it,
  any number of further passes leave the monitor as it is, and its iteration changes
  nothing at all (no further BLE call).
\<close>

theorem notification_timeout:
  assumes "i < activeMonitorCount g" and "activeMonitorCount g \<le> length (monitors g)"
    and "m = monitors g ! i" and "state m = STATE_MONITORING"
    and "t = check_millis (ans i)"
    and "stale = (t - stateEnterTime m > 2000 \<and> t - lastNotificationTime m > NOTIFICATION_TIMEOUT_MS T)"
    and "g' = loop E T now ans g"
  shows "monitors g' ! i =
      (if stale then m\<lparr>pClient := None, pWriteChar := None, pNotifyChar := None,
                        state := STATE_DISCONNECTED\<rparr>
       else m)
    \<and> fst (check_notification_timeout T t m) =
      (if stale then (case pClient m of None \<Rightarrow> []
                      | Some c \<Rightarrow> (if isConnected c then [Disconnect] else []) @ [DeleteClient])
       else [])
    \<and> (stale \<longrightarrow> monitors (run_loop E T ticks g') ! i = monitors g' ! i
                 \<and> loop_body E T now2 ans2 i (b, g') = (b, g'))"
proof -
  have eq: "monitors g' ! i =
      snd (check_notification_timeout T t (check_cooldown T now m))"
    using assms by (simp add: loop_not_scanning)
  have c: "check_cooldown T now m = m"
    using assms(4) by (simp add: check_cooldown_def)
  have first: "monitors g' ! i =
      (if stale then m\<lparr>pClient := None, pWriteChar := None, pNotifyChar := None,
                        state := STATE_DISCONNECTED\<rparr>
       else m)"
    unfolding eq c using assms(4,6)
    by (simp add: check_notification_timeout_def cleanup_def Let_def)
  have second: "fst (check_notification_timeout T t m) =
      (if stale then (case pClient m of None \<Rightarrow> []
                      | Some c \<Rightarrow> (if isConnected c then [Disconnect] else []) @ [DeleteClient])
       else [])"
    using assms(4,6) by (simp add: check_notification_timeout_def cleanup_def Let_def)
  have count: "i < activeMonitorCount g'" "activeMonitorCount g' \<le> length (monitors g')"
    using assms(1,2,7) by (simp_all add: loop_count loop_length)
  have third: "monitors (run_loop E T ticks g') ! i = monitors g' ! i
        \<and> loop_body E T now2 ans2 i (b, g') = (b, g')" if stale
  proof -
    have d: "state (monitors g' ! i) = STATE_DISCONNECTED"
      using first that by simp
    show ?thesis
      using count d by (simp add: run_loop_disconnected loop_body_disconnected)
  qed
  show ?thesis
    using first second third by blast
qed


theorem cooldown_expiry_witness:
  "monitors (loop xor_cipher demo_tunables 31000 (\<lambda>_. all_ok) (demo_globals [cooldown_monitor])) ! 0
     = cooldown_monitor\<lparr>state := STATE_DISCONNECTED, connectRetries := 0\<rparr>
   \<and> monitors (loop xor_cipher demo_tunables 30999 (\<lambda>_. all_ok) (demo_globals [cooldown_monitor])) ! 0
     = cooldown_monitor"
  using
    cooldown_expiry [of 0 "demo_globals [cooldown_monitor]" cooldown_monitor
      xor_cipher demo_tunables 31000 "\<lambda>_. all_ok"]
    cooldown_expiry [of 0 "demo_globals [cooldown_monitor]" cooldown_monitor
      xor_cipher demo_tunables 30999 "\<lambda>_. all_ok"]
  by (simp add: demo_globals_def cooldown_monitor_def demo_tunables_def)

theorem notification_timeout_witness:
  "monitors (loop xor_cipher demo_tunables 69900 (\<lambda>_. all_ok\<lparr>check_millis := 70000\<rparr>)
      (demo_globals [monitoring_monitor])) ! 0
     = monitoring_monitor\<lparr>pClient := None, pWriteChar := None, pNotifyChar := None,
                           state := STATE_DISCONNECTED\<rparr>
   \<and> monitors (run_loop xor_cipher demo_tunables [(80000, \<lambda>_. all_ok), (90000, \<lambda>_. all_ok)]
        (loop xor_cipher demo_tunables 69900 (\<lambda>_. all_ok\<lparr>check_millis := 70000\<rparr>)
          (demo_globals [monitoring_monitor]))) ! 0
     = monitoring_monitor\<lparr>pClient := None, pWriteChar := None, pNotifyChar := None,
                           state := STATE_DISCONNECTED\<rparr>
   \<and> monitors (loop xor_cipher demo_tunables 3400 (\<lambda>_. all_ok\<lparr>check_millis := 3500\<rparr>)
      (demo_globals [monitoring_monitor])) ! 0
     = monitoring_monitor"
  using
    notification_timeout [of 0 "demo_globals [monitoring_monitor]" monitoring_monitor
      70000 "\<lambda>_. all_ok\<lparr>check_millis := 70000\<rparr>" True demo_tunables _ xor_cipher 69900
      "[(80000, \<lambda>_. all_ok), (90000, \<lambda>_. all_ok)]", OF _ _ _ _ _ _ refl]
    notification_timeout [of 0 "demo_globals [monitoring_monitor]" monitoring_monitor
      3500 "\<lambda>_. all_ok\<lparr>check_millis := 3500\<rparr>" False demo_tunables _ xor_cipher 3400,
      OF _ _ _ _ _ _ refl]
  by (simp add: demo_globals_def monitoring_monitor_def linked_monitor_def demo_tunables_def)

section \<open>Properties of the handshake and the connection attempt\<close>

lemma upt_6: "[0..<6] = [0, 1, 2, 3, 4, 5]"
  by (simp add: upt_rec)

lemma sendHandshake_Some:
  "pWriteChar m = Some w \<Longrightarrow>
   sendHandshake E T t m =
     (map (\<lambda>p. WriteValue w (aes_encrypt E T p)) (commands m),
      m\<lparr>state := STATE_MONITORING, stateEnterTime := t,
        lastNotificationTime := t, lastUpdateTime := t\<rparr>)"
  by (simp add: sendHandshake_def upt_6 commands_def)

lemma written_map_WriteValue: "written (map (\<lambda>p. WriteValue w (f p)) ps) = map f ps"
  by (induction ps) simp_all

lemma written_append: "written (xs @ ys) = written xs @ written ys"
  by (induction xs rule: written.induct) simp_all

lemma connect_attempt_success:
  assumes "connect_ok a" "service_found a" "write_char a = Some w" "notify_char a = Some n"
    and "can_notify a \<longrightarrow> subscribe_ok a"
  shows "connect_attempt E T now a m =
    (False,
     [CreateClient, Connect (deviceAddress m)] @ (if can_notify a then [Subscribe n] else [])
       @ map (\<lambda>p. WriteValue w (aes_encrypt E T p)) (commands m),
     m\<lparr>pClient := Some \<lparr>isConnected = True\<rparr>, pWriteChar := Some w,
       pNotifyChar := Some n, connectRetries := 0, state := STATE_MONITORING,
       stateEnterTime := handshake_millis a, lastNotificationTime := handshake_millis a,
       lastUpdateTime := handshake_millis a\<rparr>)"
  using assms
  by (auto simp: connect_attempt_def Let_def sendHandshake_Some commands_def split: prod.splits)

text \<open>
  C5: whatever the configured battery type, \<open>sendHandshake\<close> on a monitor with a write
  characteristic writes exactly six encrypted frames to it, in this order: session-init,
  battery-type select carrying the configured type code, the two constant configuration
  frames, pre-finalization, finalization; it then leaves the monitor in MONITORING with
  \<open>stateEnterTime\<close> and \<open>lastNotificationTime\<close> (and \<open>lastUpdateTime\<close>) set to the
  current time. The loop reaches HANDSHAKE only after it has found both characteristics,
  and then calls \<open>sendHandshake\<close> on that monitor.
\<close>

theorem handshake_six_frames:
  "(pWriteChar m = Some w \<longrightarrow>
      sendHandshake E T t m =
        ([WriteValue w (aes_encrypt E T
            [0xD1, 0x55, 0x01, 0x00, 0x00, 0x00, 0x00, 0x00, 0x00, 0x00, 0x00, 0x00, 0x00, 0x00, 0x00, 0x00]),
          WriteValue w (aes_encrypt E T
            [0xD1, 0x55, 0x08, type_code (type (config m)), 0x00, 0x00, 0x00, 0x00, 0x00, 0x00, 0x00, 0x00, 0x00, 0x00, 0x00, 0x00]),
          WriteValue w (aes_encrypt E T
            [0xD1, 0x55, 0x05, 0x00, 0x00, 0x00, 0x00, 0x00, 0x1E, 0x00, 0x00, 0x00, 0x00, 0x00, 0x00, 0x00]),
          WriteValue w (aes_encrypt E T
            [0xD1, 0x55, 0x05, 0x00, 0x00, 0x00, 0x00, 0xCA, 0x94, 0x00, 0x00, 0x00, 0x00, 0x00, 0x00, 0x00]),
          WriteValue w (aes_encrypt E T
            [0xD1, 0x55, 0x03, 0x00, 0x00, 0x00, 0x00, 0x00, 0x00, 0x00, 0x00, 0x00, 0x00, 0x00, 0x00, 0x00]),
          WriteValue w (aes_encrypt E T
            [0xD1, 0x55, 0x07, 0x00, 0x00, 0x00, 0x00, 0x00, 0x00, 0x00, 0x00, 0x00, 0x00, 0x00, 0x00, 0x00])],
         m\<lparr>state := STATE_MONITORING, stateEnterTime := t,
           lastNotificationTime := t, lastUpdateTime := t\<rparr>))
   \<and> (connect_ok a \<and> service_found a \<and> write_char a = Some w \<and> notify_char a = Some n
        \<and> (can_notify a \<longrightarrow> subscribe_ok a) \<longrightarrow>
      connect_attempt E T now a m0 =
        (False,
         [CreateClient, Connect (deviceAddress m0)] @ (if can_notify a then [Subscribe n] else [])
           @ fst (sendHandshake E T (handshake_millis a)
                   (m0\<lparr>pClient := Some \<lparr>isConnected = True\<rparr>, pWriteChar := Some w,
                       pNotifyChar := Some n, connectRetries := 0, state := STATE_HANDSHAKE\<rparr>)),
         snd (sendHandshake E T (handshake_millis a)
                   (m0\<lparr>pClient := Some \<lparr>isConnected = True\<rparr>, pWriteChar := Some w,
                       pNotifyChar := Some n, connectRetries := 0, state := STATE_HANDSHAKE\<rparr>))))"
proof -
  have "sendHandshake E T t m =
        ([WriteValue w (aes_encrypt E T
            [0xD1, 0x55, 0x01, 0x00, 0x00, 0x00, 0x00, 0x00, 0x00, 0x00, 0x00, 0x00, 0x00, 0x00, 0x00, 0x00]),
          WriteValue w (aes_encrypt E T
            [0xD1, 0x55, 0x08, type_code (type (config m)), 0x00, 0x00, 0x00, 0x00, 0x00, 0x00, 0x00, 0x00, 0x00, 0x00, 0x00, 0x00]),
          WriteValue w (aes_encrypt E T
            [0xD1, 0x55, 0x05, 0x00, 0x00, 0x00, 0x00, 0x00, 0x1E, 0x00, 0x00, 0x00, 0x00, 0x00, 0x00, 0x00]),
          WriteValue w (aes_encrypt E T
            [0xD1, 0x55, 0x05, 0x00, 0x00, 0x00, 0x00, 0xCA, 0x94, 0x00, 0x00, 0x00, 0x00, 0x00, 0x00, 0x00]),
          WriteValue w (aes_encrypt E T
            [0xD1, 0x55, 0x03, 0x00, 0x00, 0x00, 0x00, 0x00, 0x00, 0x00, 0x00, 0x00, 0x00, 0x00, 0x00, 0x00]),
          WriteValue w (aes_encrypt E T
            [0xD1, 0x55, 0x07, 0x00, 0x00, 0x00, 0x00, 0x00, 0x00, 0x00, 0x00, 0x00, 0x00, 0x00, 0x00, 0x00])],
         m\<lparr>state := STATE_MONITORING, stateEnterTime := t,
           lastNotificationTime := t, lastUpdateTime := t\<rparr>)"
    if "pWriteChar m = Some w"
    using that by (simp add: sendHandshake_Some commands_def)
  moreover have "connect_attempt E T now a m0 =
        (False,
         [CreateClient, Connect (deviceAddress m0)] @ (if can_notify a then [Subscribe n] else [])
           @ fst (sendHandshake E T (handshake_millis a)
                   (m0\<lparr>pClient := Some \<lparr>isConnected = True\<rparr>, pWriteChar := Some w,
                       pNotifyChar := Some n, connectRetries := 0, state := STATE_HANDSHAKE\<rparr>)),
         snd (sendHandshake E T (handshake_millis a)
                   (m0\<lparr>pClient := Some \<lparr>isConnected = True\<rparr>, pWriteChar := Some w,
                       pNotifyChar := Some n, connectRetries := 0, state := STATE_HANDSHAKE\<rparr>)))"
    if "connect_ok a \<and> service_found a \<and> write_char a = Some w \<and> notify_char a = Some n
        \<and> (can_notify a \<longrightarrow> subscribe_ok a)"
    using that by (auto simp: connect_attempt_def Let_def split: prod.splits)
  ultimately show ?thesis by blast
qed

theorem handshake_six_frames_witness:
  "written (fst (sendHandshake xor_cipher demo_tunables 1500
       (linked_monitor demo_config 7 STATE_HANDSHAKE)))
     = map (aes_encrypt xor_cipher demo_tunables) (commands (init 0 demo_config))
   \<and> snd (sendHandshake xor_cipher demo_tunables 1500
       (linked_monitor demo_config 7 STATE_HANDSHAKE))
     = (linked_monitor demo_config 7 STATE_MONITORING)
         \<lparr>stateEnterTime := 1500, lastNotificationTime := 1500, lastUpdateTime := 1500\<rparr>
   \<and> snd (snd (connect_attempt xor_cipher demo_tunables 1000 all_ok (scanning_monitor 2)))
     = (scanning_monitor 0)
         \<lparr>pClient := Some \<lparr>isConnected = True\<rparr>, pWriteChar := Some 7, pNotifyChar := Some 8,
          state := STATE_MONITORING,
          stateEnterTime := 1500, lastNotificationTime := 1500, lastUpdateTime := 1500\<rparr>"
  using
    handshake_six_frames [of "linked_monitor demo_config 7 STATE_HANDSHAKE" 7
      xor_cipher demo_tunables 1500 all_ok 8 1000 "scanning_monitor 2"]
  by (simp add: linked_monitor_def init_def commands_def all_ok_def scanning_monitor_def
      sendHandshake_Some)


lemma commands_lengths: "p \<in> set (commands m) \<Longrightarrow> length p = 16"
  by (auto simp: commands_def)

lemma aes_encrypt_block: "length p = 16 \<Longrightarrow> aes_encrypt E T p = E (AES_KEY T) p"
  by (simp add: aes_encrypt_def crypt_cbc_encrypt_def xor_block_AES_IV)

lemma aes_decrypt_block:
  "length (D (AES_KEY T) c) = 16 \<Longrightarrow> aes_decrypt D T c = D (AES_KEY T) c"
  by (simp add: aes_decrypt_def crypt_cbc_decrypt_def xor_block_AES_IV)

lemma commands_key: "commands (m\<lparr>config := (config m)\<lparr>key := k\<rparr>\<rparr>) = commands m"
  by (simp add: commands_def)

text \<open>
  C6, as the code has it: every handshake frame is encrypted under the one global key
  \<open>AES_KEY\<close> with the zero IV, which for a 16-byte frame is the block cipher applied to
  the frame itself; the key configured for the monitor's device plays no part, so
  changing it changes no ciphertext. Notifications are decrypted under \<open>AES_KEY\<close> and
  the zero IV in the same way.
\<close>

theorem global_key_encryption:
  assumes "pWriteChar m = Some w"
  shows "written (fst (sendHandshake E T t m)) = map (E (AES_KEY T)) (commands m)
    \<and> written (fst (sendHandshake E T t (m\<lparr>config := (config m)\<lparr>key := k\<rparr>\<rparr>)))
        = written (fst (sendHandshake E T t m))
    \<and> (length (D (AES_KEY T) c) = 16 \<longrightarrow> aes_decrypt D T c = D (AES_KEY T) c)"
proof -
  have "map (aes_encrypt E T) (commands m) = map (E (AES_KEY T)) (commands m)"
    by (rule map_cong) (simp_all add: commands_lengths aes_encrypt_block)
  then have "written (fst (sendHandshake E T t m)) = map (E (AES_KEY T)) (commands m)"
    using assms by (simp add: sendHandshake_Some written_map_WriteValue)
  moreover have "written (fst (sendHandshake E T t (m\<lparr>config := (config m)\<lparr>key := k\<rparr>\<rparr>)))
        = written (fst (sendHandshake E T t m))"
    using assms by (simp add: sendHandshake_Some written_map_WriteValue commands_key)
  ultimately show ?thesis
    by (simp add: aes_decrypt_block)
qed

theorem global_key_encryption_witness:
  "written (fst (sendHandshake xor_cipher demo_tunables 1500
       (linked_monitor demo_config2 7 STATE_HANDSHAKE)))
     = map (xor_cipher demo_key) (commands (linked_monitor demo_config2 7 STATE_HANDSHAKE))
   \<and> written (fst (sendHandshake xor_cipher demo_tunables 1500
       ((linked_monitor demo_config2 7 STATE_HANDSHAKE)
          \<lparr>config := (config (linked_monitor demo_config2 7 STATE_HANDSHAKE))\<lparr>key := demo_key\<rparr>\<rparr>)))
     = written (fst (sendHandshake xor_cipher demo_tunables 1500
       (linked_monitor demo_config2 7 STATE_HANDSHAKE)))
   \<and> aes_decrypt xor_cipher demo_tunables (telemetry 0 23) = xor_cipher demo_key (telemetry 0 23)"
  using global_key_encryption [where m = "linked_monitor demo_config2 7 STATE_HANDSHAKE"
      and w = 7 and E = xor_cipher and T = demo_tunables and t = 1500 and k = demo_key
      and D = xor_cipher and c = "telemetry 0 23"]
  by (simp add: linked_monitor_def demo_tunables_def)
     (simp add: xor_cipher_def length_xor_block telemetry_def demo_key_def)

text \<open>
  C6 as stated fails: two monitors whose devices are configured with different keys
  send the same ciphertexts for the same plaintext frames.
\<close>

theorem per_device_key_counterexample:
  "key (config (linked_monitor demo_config 7 STATE_HANDSHAKE))
     \<noteq> key (config (linked_monitor demo_config2 9 STATE_HANDSHAKE))
   \<and> commands (linked_monitor demo_config 7 STATE_HANDSHAKE)
     = commands (linked_monitor demo_config2 9 STATE_HANDSHAKE)
   \<and> written (fst (sendHandshake xor_cipher demo_tunables 1500
       (linked_monitor demo_config 7 STATE_HANDSHAKE)))
     = written (fst (sendHandshake xor_cipher demo_tunables 1500
       (linked_monitor demo_config2 9 STATE_HANDSHAKE)))"
  by (simp add: sendHandshake_Some written_map_WriteValue linked_monitor_def init_def
      commands_def demo_config_def demo_config2_def demo_key_def other_key_def)

text \<open>
  C1, as the code has it: a connection attempt in which a step fails sends no handshake
  frame and does not reach HANDSHAKE or MONITORING. When opening the connection fails,
  \<open>connectRetries\<close> is incremented (an 8-bit counter); while the new value is below
  \<open>MAX_CONNECT_RETRIES\<close> the monitor goes back to DISCONNECTED, and otherwise it goes to
  COOLDOWN with \<open>lastRetryTime\<close> set to \<open>now\<close>. When the service or a characteristic
  is missing, or subscribing fails, the monitor goes back to DISCONNECTED and
  \<open>connectRetries\<close> stays as it was. (The cooldown check of the same iteration
  comes after the attempt; it ends a cooldown just begun only when
  \<open>RETRY_COOLDOWN_MS\<close> is 0.)
\<close>

theorem connect_failure_policy:
  assumes "ops = fst (snd (connect_attempt E T now a m))"
    and "m' = snd (snd (connect_attempt E T now a m))"
    and "\<not> connect_ok a \<or> \<not> service_found a \<or> write_char a = None \<or> notify_char a = None
         \<or> (can_notify a \<and> \<not> subscribe_ok a)"
  shows "written ops = [] \<and> state m' \<noteq> STATE_HANDSHAKE \<and> state m' \<noteq> STATE_MONITORING
    \<and> (if \<not> connect_ok a then
         connectRetries m' = connectRetries m + 1
         \<and> (if uint (connectRetries m + 1) < MAX_CONNECT_RETRIES T
            then state m' = STATE_DISCONNECTED
            else state m' = STATE_COOLDOWN \<and> lastRetryTime m' = now)
       else connectRetries m' = connectRetries m \<and> state m' = STATE_DISCONNECTED)"
  using assms
  by (auto simp: connect_attempt_def Let_def split: if_splits)

theorem connect_failure_policy_witness:
  "connectRetries (snd (snd (connect_attempt xor_cipher demo_tunables 1000
       (all_ok\<lparr>connect_ok := False\<rparr>) (scanning_monitor 0)))) = 1
   \<and> state (snd (snd (connect_attempt xor_cipher demo_tunables 1000
       (all_ok\<lparr>connect_ok := False\<rparr>) (scanning_monitor 0)))) = STATE_DISCONNECTED
   \<and> connectRetries (snd (snd (connect_attempt xor_cipher demo_tunables 1000
       (all_ok\<lparr>connect_ok := False\<rparr>) (scanning_monitor 2)))) = 3
   \<and> state (snd (snd (connect_attempt xor_cipher demo_tunables 1000
       (all_ok\<lparr>connect_ok := False\<rparr>) (scanning_monitor 2)))) = STATE_COOLDOWN
   \<and> lastRetryTime (snd (snd (connect_attempt xor_cipher demo_tunables 1000
       (all_ok\<lparr>connect_ok := False\<rparr>) (scanning_monitor 2)))) = 1000
   \<and> connectRetries (snd (snd (connect_attempt xor_cipher demo_tunables 1000
       (all_ok\<lparr>subscribe_ok := False\<rparr>) (scanning_monitor 2)))) = 2
   \<and> state (snd (snd (connect_attempt xor_cipher demo_tunables 1000
       (all_ok\<lparr>subscribe_ok := False\<rparr>) (scanning_monitor 2)))) = STATE_DISCONNECTED"
  using
    connect_failure_policy [OF refl refl, of "all_ok\<lparr>connect_ok := False\<rparr>"
      xor_cipher demo_tunables 1000 "scanning_monitor 0"]
    connect_failure_policy [OF refl refl, of "all_ok\<lparr>connect_ok := False\<rparr>"
      xor_cipher demo_tunables 1000 "scanning_monitor 2"]
    connect_failure_policy [OF refl refl, of "all_ok\<lparr>subscribe_ok := False\<rparr>"
      xor_cipher demo_tunables 1000 "scanning_monitor 2"]
  by (simp add: all_ok_def scanning_monitor_def init_def demo_tunables_def)

text \<open>
  C1 as stated fails: with the connection open and the service missing, the attempt is
  aborted with \<open>connectRetries\<close> still 0.
\<close>

theorem connect_retry_counterexample:
  "connect_ok (all_ok\<lparr>service_found := False\<rparr>)
   \<and> \<not> service_found (all_ok\<lparr>service_found := False\<rparr>)
   \<and> connectRetries (scanning_monitor 0) = 0
   \<and> connectRetries (snd (snd (connect_attempt xor_cipher demo_tunables 1000
        (all_ok\<lparr>service_found := False\<rparr>) (scanning_monitor 0)))) = 0
   \<and> state (snd (snd (connect_attempt xor_cipher demo_tunables 1000
        (all_ok\<lparr>service_found := False\<rparr>) (scanning_monitor 0)))) = STATE_DISCONNECTED"
  by (simp add: connect_attempt_def Let_def all_ok_def scanning_monitor_def init_def)

section \<open>Properties of the discovery matcher\<close>

lemma onResult_loop_Some:
  "onResult_loop mac device js g = (Some i, g') \<Longrightarrow>
   i \<in> set js
   \<and> mac = toUpperCase (serial (config (monitors g ! i)))
   \<and> enabled (config (monitors g ! i))
   \<and> (state (monitors g ! i) = STATE_DISCONNECTED \<or> state (monitors g ! i) = STATE_SCANNING)
   \<and> \<not> (case pClient (monitors g ! i) of None \<Rightarrow> False | Some c \<Rightarrow> isConnected c)
   \<and> g' = g\<lparr>isScanning := False, ble_log := ble_log g @ [ScanStop],
             monitors := (monitors g)[i := (monitors g ! i)\<lparr>state := STATE_SCANNING,
                                         deviceAddress := getAddress device\<rparr>]\<rparr>"
proof (induction js)
  case Nil
  then show ?case by simp
next
  case (Cons j js)
  show ?case
  proof (cases "onResult_loop mac device (j # js) g = onResult_loop mac device js g")
    case True
    with Cons show ?thesis by auto
  next
    case False
    then have claimed: "onResult_loop mac device (j # js) g =
        (Some j, g\<lparr>isScanning := False, ble_log := ble_log g @ [ScanStop],
             monitors := (monitors g)[j := (monitors g ! j)\<lparr>state := STATE_SCANNING,
                                         deviceAddress := getAddress device\<rparr>]\<rparr>)"
      by (simp add: Let_def split: if_splits)
    from False have guards: "mac = toUpperCase (serial (config (monitors g ! j)))"
      "enabled (config (monitors g ! j))"
      "state (monitors g ! j) \<noteq> STATE_COOLDOWN"
      "state (monitors g ! j) \<noteq> STATE_CONNECTING"
      "state (monitors g ! j) \<noteq> STATE_MONITORING"
      "state (monitors g ! j) \<noteq> STATE_HANDSHAKE"
      "\<not> (case pClient (monitors g ! j) of None \<Rightarrow> False | Some c \<Rightarrow> isConnected c)"
      by (auto simp: Let_def split: if_splits)
    have "state (monitors g ! j) = STATE_DISCONNECTED \<or> state (monitors g ! j) = STATE_SCANNING"
      using guards(3-6) by (cases "state (monitors g ! j)") simp_all
    with claimed Cons.prems guards(1,2,7) show ?thesis by auto
  qed
qed

lemma onResult_loop_None: "onResult_loop mac device js g = (None, g') \<Longrightarrow> g' = g"
  by (induction js) (auto simp: Let_def split: if_splits)

lemma onResult_None: "onResult device g = (None, g') \<Longrightarrow> g' = g"
  by (auto simp: onResult_def Let_def split: if_splits dest: onResult_loop_None)

text \<open>
  C3, as the code has it: when an advertisement makes the matcher claim a monitor, the
  advertisement carries the family name and the monitor's address, the monitor's config
  is enabled, its state is DISCONNECTED or SCANNING (never COOLDOWN, CONNECTING, HANDSHAKE
  or MONITORING), and it has no connected client. The claim stops the scan, sets that
  monitor to SCANNING with the advertised address cached, and changes nothing else.
\<close>

theorem matcher_claims_eligible:
  assumes "onResult device g = (Some i, g')" and "m = monitors g ! i"
  shows "i < activeMonitorCount g
    \<and> haveName device \<and> getName device = ''Battery Guard''
    \<and> toUpperCase (remove_colons (getAddress device)) = toUpperCase (serial (config m))
    \<and> enabled (config m)
    \<and> (state m = STATE_DISCONNECTED \<or> state m = STATE_SCANNING)
    \<and> \<not> (case pClient m of None \<Rightarrow> False | Some c \<Rightarrow> isConnected c)
    \<and> g' = g\<lparr>isScanning := False, ble_log := ble_log g @ [ScanStop],
              monitors := (monitors g)[i := m\<lparr>state := STATE_SCANNING,
                                              deviceAddress := getAddress device\<rparr>]\<rparr>"
proof -
  from assms(1) have name: "haveName device" "getName device = ''Battery Guard''"
    by (auto simp: onResult_def split: if_splits)
  with assms(1) have "onResult_loop (toUpperCase (remove_colons (getAddress device))) device
      [0..<activeMonitorCount g] g = (Some i, g')"
    by (simp add: onResult_def Let_def)
  from onResult_loop_Some [OF this] name assms(2) show ?thesis by simp
qed

lemma mac_demo: "toUpperCase (remove_colons ''50:54:7b:81:5a:fb'') = ''50547B815AFB''"
  by code_simp

lemma serial_demo: "toUpperCase ''50547B815AFB'' = ''50547B815AFB''"
  by code_simp

lemma onResult_demo:
  "enabled (config m) \<Longrightarrow> serial (config m) = ''50547B815AFB''
   \<Longrightarrow> state m = STATE_DISCONNECTED \<or> state m = STATE_SCANNING
   \<Longrightarrow> pClient m = None \<Longrightarrow>
   onResult demo_advert (demo_globals [m]) =
     (Some 0, (demo_globals [m\<lparr>state := STATE_SCANNING, deviceAddress := ''50:54:7b:81:5a:fb''\<rparr>])
        \<lparr>isScanning := False, ble_log := [ScanStop]\<rparr>)"
  by (auto simp: onResult_def demo_advert_def demo_globals_def mac_demo serial_demo Let_def)

theorem matcher_claims_eligible_witness:
  "onResult demo_advert (demo_globals [init 0 demo_config]) =
     (Some 0, (demo_globals [scanning_monitor 0])\<lparr>isScanning := False, ble_log := [ScanStop]\<rparr>)
   \<and> enabled (config (init 0 demo_config))
   \<and> state (init 0 demo_config) = STATE_DISCONNECTED
   \<and> pClient (init 0 demo_config) = None"
proof -
  have r: "onResult demo_advert (demo_globals [init 0 demo_config]) =
     (Some 0, (demo_globals [scanning_monitor 0])\<lparr>isScanning := False, ble_log := [ScanStop]\<rparr>)"
    using onResult_demo [of "init 0 demo_config"]
    by (simp add: init_def demo_config_def scanning_monitor_def)
  show ?thesis
    using matcher_claims_eligible [OF r refl] r
    by (simp add: demo_globals_def init_def demo_config_def)
qed

text \<open>
  C3 as stated fails: a monitor that is already SCANNING is claimed again.
\<close>

theorem matcher_scanning_counterexample:
  "state (scanning_monitor 0) = STATE_SCANNING
   \<and> onResult demo_advert (demo_globals [scanning_monitor 0]) =
     (Some 0, (demo_globals [scanning_monitor 0])\<lparr>isScanning := False, ble_log := [ScanStop]\<rparr>)"
  using onResult_demo [of "scanning_monitor 0"]
  by (simp add: init_def demo_config_def scanning_monitor_def)

end
